theory Spec2Isabelle
  imports Main "HOL-Library.Word"
begin

unbundle bit_operations_syntax

section \<open>The I2C master driver of i2c\_master.c\<close>

text \<open>
  The driver is a finite state machine kept in one global, \<open>i2c_fsm\<close>, and driven by the
  interrupt of the TWI0 peripheral. Both globals and a log of what the driver does are the
  fields of one record, which every function takes and returns. All integers of the
  source are \<open>uint8_t\<close>: 8-bit words, whose arithmetic wraps.
\<close>

type_synonym u8 = "8 word"

subsection \<open>Data\<close>

text \<open>\<open>i2c_states_t\<close>, in the order of the enumeration; \<open>state_index\<close> is the value of
  each enumerator, which indexes the table of callbacks.\<close>

datatype i2c_states_t =
    I2C_IDLE
  | I2C_START
  | I2C_STOP
  | I2C_RESET
  | I2C_TX_BYTE
  | I2C_RX_BYTE
  | I2C_NACK
  | I2C_ARB_ERR
  | I2C_BUS_ERR

fun state_index :: "i2c_states_t \<Rightarrow> nat" where
  "state_index I2C_IDLE = 0"
| "state_index I2C_START = 1"
| "state_index I2C_STOP = 2"
| "state_index I2C_RESET = 3"
| "state_index I2C_TX_BYTE = 4"
| "state_index I2C_RX_BYTE = 5"
| "state_index I2C_NACK = 6"
| "state_index I2C_ARB_ERR = 7"
| "state_index I2C_BUS_ERR = 8"

text \<open>
  \<open>i2c_data\<close>. The pointer \<open>byte_array\<close> is modelled by the array it points to: the list is
  the caller's object, its length the extent of that object, which is independent of
  \<open>size_byte_array\<close>. The null pointer of the zero-initialised global is the empty list.
  An access outside the list is undefined behaviour in C and \<open>None\<close> here.
\<close>

record i2c_data =
  slave_addr :: u8
  byte_array :: "u8 list"
  size_byte_array :: u8
  byte_count :: u8
  state :: i2c_states_t

text \<open>\<open>i2c_data i2c_fsm = {0};\<close>\<close>

definition i2c_fsm_zero :: i2c_data where
  "i2c_fsm_zero =
     \<lparr>slave_addr = 0, byte_array = [], size_byte_array = 0, byte_count = 0, state = I2C_IDLE\<rparr>"

text \<open>The registers of \<open>TWI0\<close> that the source touches.\<close>

record TWI_t =
  CTRLA :: u8
  DBGCTRL :: u8
  MBAUD :: u8
  MCTRLA :: u8
  MCTRLB :: u8
  MSTATUS :: u8
  MADDR :: u8
  MDATA :: u8

datatype twi_reg =
  R_CTRLA | R_DBGCTRL | R_MBAUD | R_MCTRLA | R_MCTRLB | R_MSTATUS | R_MADDR | R_MDATA

fun set_reg :: "twi_reg \<Rightarrow> u8 \<Rightarrow> TWI_t \<Rightarrow> TWI_t" where
  "set_reg R_CTRLA v t = t\<lparr>CTRLA := v\<rparr>"
| "set_reg R_DBGCTRL v t = t\<lparr>DBGCTRL := v\<rparr>"
| "set_reg R_MBAUD v t = t\<lparr>MBAUD := v\<rparr>"
| "set_reg R_MCTRLA v t = t\<lparr>MCTRLA := v\<rparr>"
| "set_reg R_MCTRLB v t = t\<lparr>MCTRLB := v\<rparr>"
| "set_reg R_MSTATUS v t = t\<lparr>MSTATUS := v\<rparr>"
| "set_reg R_MADDR v t = t\<lparr>MADDR := v\<rparr>"
| "set_reg R_MDATA v t = t\<lparr>MDATA := v\<rparr>"

text \<open>
  What the driver does, in order: each state whose callback the handler invokes, each
  write of a register with the value written, and each read of the data register with
  the value read (the accesses that act on the peripheral; reading a status or control
  register does not).
\<close>

datatype obs =
    Dispatch i2c_states_t
  | Write twi_reg u8
  | Read twi_reg u8

record world =
  i2c_fsm :: i2c_data
  TWI0 :: TWI_t
  trace :: "obs list"

text \<open>
  The bit masks and group codes of the device header \<open>avr/io.h\<close> and of
  \<open>i2c_master.h\<close>, neither of which is among the sources: they are a parameter of every
  function that uses one.
\<close>

record twi_defs =
  I2C_READ_bm :: u8
  TWI_MCMD_STOP_gc :: u8
  TWI_FLUSH_bm :: u8
  TWI_BUSSTATE_IDLE_gc :: u8
  TWI_RXACK_bm :: u8
  TWI_ARBLOST_bm :: u8
  TWI_BUSERR_bm :: u8
  TWI_ACKACT_bm :: u8
  TWI_SDASETUP_4CYC_gc :: u8
  TWI_SDAHOLD_OFF_gc :: u8
  TWI_DBGRUN_bm :: u8
  TWI_RIEN_bm :: u8
  TWI_WIEN_bm :: u8
  TWI_TIMEOUT_DISABLED_gc :: u8
  TWI_ENABLE_bm :: u8

text \<open>The values of the ATmega4809 header, with bit 0 as the read bit: one concrete
  instance of the parameter, for evaluating the driver.\<close>

definition mega4809 :: twi_defs where
  "mega4809 =
     \<lparr>I2C_READ_bm = 0x01, TWI_MCMD_STOP_gc = 0x03, TWI_FLUSH_bm = 0x08,
      TWI_BUSSTATE_IDLE_gc = 0x01, TWI_RXACK_bm = 0x10, TWI_ARBLOST_bm = 0x08,
      TWI_BUSERR_bm = 0x04, TWI_ACKACT_bm = 0x04, TWI_SDASETUP_4CYC_gc = 0x00,
      TWI_SDAHOLD_OFF_gc = 0x00, TWI_DBGRUN_bm = 0x01, TWI_RIEN_bm = 0x80,
      TWI_WIEN_bm = 0x40, TWI_TIMEOUT_DISABLED_gc = 0x00, TWI_ENABLE_bm = 0x01\<rparr>"

definition reg_write :: "twi_reg \<Rightarrow> u8 \<Rightarrow> world \<Rightarrow> world" where
  "reg_write r v w = w\<lparr>TWI0 := set_reg r v (TWI0 w), trace := trace w @ [Write r v]\<rparr>"

definition set_state :: "i2c_states_t \<Rightarrow> world \<Rightarrow> world" where
  "set_state s w = w\<lparr>i2c_fsm := (i2c_fsm w)\<lparr>state := s\<rparr>\<rparr>"

subsection \<open>The callbacks of the states\<close>

type_synonym fsm_function = "world \<Rightarrow> (i2c_states_t \<times> world) option"

definition I2C_M_IDLE :: fsm_function where
  "I2C_M_IDLE w = Some (I2C_IDLE, w)"

definition I2C_M_START :: "twi_defs \<Rightarrow> fsm_function" where
  "I2C_M_START K w =
     (let w1 = w\<lparr>i2c_fsm := (i2c_fsm w)\<lparr>byte_count := 0\<rparr>\<rparr>;
          w2 = reg_write R_MADDR (slave_addr (i2c_fsm w1)) w1
      in Some (if slave_addr (i2c_fsm w2) AND I2C_READ_bm K \<noteq> 0
               then I2C_RX_BYTE else I2C_TX_BYTE, w2))"

definition I2C_M_STOP :: "twi_defs \<Rightarrow> fsm_function" where
  "I2C_M_STOP K w =
     Some (I2C_IDLE, reg_write R_MCTRLB (MCTRLB (TWI0 w) OR TWI_MCMD_STOP_gc K) w)"

definition I2C_M_RESET :: "twi_defs \<Rightarrow> fsm_function" where
  "I2C_M_RESET K w =
     (let w1 = reg_write R_MCTRLB (MCTRLB (TWI0 w) OR TWI_FLUSH_bm K) w;
          w2 = reg_write R_MSTATUS (MSTATUS (TWI0 w1) OR TWI_BUSSTATE_IDLE_gc K) w1
      in Some (I2C_IDLE, w2))"

text \<open>\<open>*(i2c_fsm.byte_array + i2c_fsm.byte_count)\<close> is read, or written, inside the
  array only; \<open>byte_count ++\<close> wraps at 256; the comparison is \<open>>=\<close>.\<close>

definition I2C_M_TX :: fsm_function where
  "I2C_M_TX w =
     (let i = unat (byte_count (i2c_fsm w)) in
      if i < length (byte_array (i2c_fsm w)) then
        (let w1 = reg_write R_MDATA (byte_array (i2c_fsm w) ! i) w;
             w2 = w1\<lparr>i2c_fsm := (i2c_fsm w1)\<lparr>byte_count := byte_count (i2c_fsm w1) + 1\<rparr>\<rparr>
         in Some (if byte_count (i2c_fsm w2) \<ge> size_byte_array (i2c_fsm w2)
                  then I2C_STOP else I2C_TX_BYTE, w2))
      else None)"

definition I2C_M_RX :: fsm_function where
  "I2C_M_RX w =
     (let i = unat (byte_count (i2c_fsm w)) in
      if i < length (byte_array (i2c_fsm w)) then
        (let v = MDATA (TWI0 w);
             w1 = w\<lparr>i2c_fsm := (i2c_fsm w)\<lparr>byte_array := (byte_array (i2c_fsm w))[i := v]\<rparr>,
                    trace := trace w @ [Read R_MDATA v]\<rparr>;
             w2 = w1\<lparr>i2c_fsm := (i2c_fsm w1)\<lparr>byte_count := byte_count (i2c_fsm w1) + 1\<rparr>\<rparr>
         in Some (if byte_count (i2c_fsm w2) \<ge> size_byte_array (i2c_fsm w2)
                  then I2C_STOP else I2C_RX_BYTE, w2))
      else None)"

definition I2C_M_RX_NACK :: "twi_defs \<Rightarrow> fsm_function" where
  "I2C_M_RX_NACK K w = I2C_M_STOP K w"

definition I2C_M_ARB_LOST :: "twi_defs \<Rightarrow> fsm_function" where
  "I2C_M_ARB_LOST K w = I2C_M_STOP K w"

definition I2C_M_BUS_ERR :: "twi_defs \<Rightarrow> fsm_function" where
  "I2C_M_BUS_ERR K w = I2C_M_STOP K w"

definition state_callbacks :: "twi_defs \<Rightarrow> fsm_function list" where
  "state_callbacks K =
     [I2C_M_IDLE,
      I2C_M_START K,
      I2C_M_STOP K,
      I2C_M_RESET K,
      I2C_M_TX,
      I2C_M_RX,
      I2C_M_RX_NACK K,
      I2C_M_ARB_LOST K,
      I2C_M_BUS_ERR K]"

subsection \<open>The interrupt handler\<close>

text \<open>The three tests of \<open>i2c_state_isr\<close>, each storing its error state over the state
  in \<open>i2c_fsm\<close>; the state left there is the one whose callback runs.\<close>

definition triage :: "twi_defs \<Rightarrow> world \<Rightarrow> world" where
  "triage K w =
     (let w1 = (if MSTATUS (TWI0 w) AND TWI_RXACK_bm K \<noteq> 0 then set_state I2C_NACK w else w);
          w2 = (if MSTATUS (TWI0 w1) AND TWI_ARBLOST_bm K \<noteq> 0
                then set_state I2C_ARB_ERR w1 else w1);
          w3 = (if MSTATUS (TWI0 w2) AND TWI_BUSERR_bm K \<noteq> 0
                then set_state I2C_BUS_ERR w2 else w2)
      in w3)"

text \<open>\<open>state_callbacks[i2c_fsm.state]()\<close>: the call is logged; an index outside the table is
  undefined.\<close>

definition call_state :: "twi_defs \<Rightarrow> i2c_states_t \<Rightarrow> fsm_function" where
  "call_state K s w =
     (if state_index s < length (state_callbacks K)
      then (state_callbacks K ! state_index s) (w\<lparr>trace := trace w @ [Dispatch s]\<rparr>)
      else None)"

definition i2c_state_isr :: "twi_defs \<Rightarrow> world \<Rightarrow> world option" where
  "i2c_state_isr K w =
     (let w3 = triage K w in
      case call_state K (state (i2c_fsm w3)) w3 of
        None \<Rightarrow> None
      | Some (s, w4) \<Rightarrow> Some (set_state s w4))"

text \<open>\<open>ISR(TWI0_TWIM_vect)\<close>\<close>

definition TWI0_TWIM_vect :: "twi_defs \<Rightarrow> world \<Rightarrow> world option" where
  "TWI0_TWIM_vect K w = i2c_state_isr K w"

subsection \<open>The entry points\<close>

definition i2c_set_buffer :: "u8 list \<Rightarrow> u8 \<Rightarrow> world \<Rightarrow> world" where
  "i2c_set_buffer buff sz w =
     w\<lparr>i2c_fsm := (i2c_fsm w)\<lparr>byte_array := buff, size_byte_array := sz, byte_count := 0\<rparr>\<rparr>"

text \<open>The configuration of \<open>i2c_master_init\<close>, up to and including the clearing of
  \<open>ACKACT\<close>; the rest of the function follows in \<open>i2c_master_init\<close>.\<close>

definition init_config :: "twi_defs \<Rightarrow> world \<Rightarrow> world" where
  "init_config K w =
     (let w1 = reg_write R_CTRLA (TWI_SDASETUP_4CYC_gc K OR TWI_SDAHOLD_OFF_gc K) w;
          w2 = reg_write R_DBGCTRL (TWI_DBGRUN_bm K) w1;
          w3 = reg_write R_MBAUD 0x0B w2;
          w4 = reg_write R_MCTRLA
                 (TWI_RIEN_bm K OR TWI_WIEN_bm K OR TWI_TIMEOUT_DISABLED_gc K
                    OR TWI_ENABLE_bm K) w3;
          w5 = reg_write R_MCTRLB (MCTRLB (TWI0 w4) AND NOT (TWI_ACKACT_bm K)) w4
      in w5)"

definition i2c_master_init :: "twi_defs \<Rightarrow> world \<Rightarrow> world" where
  "i2c_master_init K w =
     (let w5 = init_config K w;
          w6 = reg_write R_MCTRLB (MCTRLB (TWI0 w5) OR TWI_FLUSH_bm K) w5;
          w7 = reg_write R_MSTATUS (MSTATUS (TWI0 w6) OR TWI_BUSSTATE_IDLE_gc K) w6
      in set_state I2C_IDLE w7)"

definition i2c_start :: "twi_defs \<Rightarrow> u8 \<Rightarrow> u8 \<Rightarrow> world \<Rightarrow> world option" where
  "i2c_start K addr read_write w =
     (if state (i2c_fsm w) = I2C_IDLE then
        (let w1 = w\<lparr>i2c_fsm := (i2c_fsm w)\<lparr>slave_addr := push_bit 1 addr OR read_write\<rparr>\<rparr>;
             w2 = set_state I2C_START w1
         in i2c_state_isr K w2)
      else Some w)"

subsection \<open>The peripheral and the caller\<close>

text \<open>
  Before it raises the interrupt the peripheral sets its status register and, for a
  received byte, its data register; between two interrupts a register holds what was
  last put in it. The driver is used through three things: a call of \<open>i2c_set_buffer\<close>,
  a call of \<open>i2c_start\<close>, and an interrupt.
\<close>

definition hw_event :: "u8 \<Rightarrow> u8 \<Rightarrow> world \<Rightarrow> world" where
  "hw_event st d w = w\<lparr>TWI0 := (TWI0 w)\<lparr>MSTATUS := st, MDATA := d\<rparr>\<rparr>"

datatype call =
    SetBuffer "u8 list" u8
  | Begin u8 u8
  | Event u8 u8

fun step :: "twi_defs \<Rightarrow> world \<Rightarrow> call \<Rightarrow> world option" where
  "step K w (SetBuffer buff sz) = Some (i2c_set_buffer buff sz w)"
| "step K w (Begin addr read_write) = i2c_start K addr read_write w"
| "step K w (Event st d) = TWI0_TWIM_vect K (hw_event st d w)"

fun run :: "twi_defs \<Rightarrow> world \<Rightarrow> call list \<Rightarrow> world option" where
  "run K w [] = Some w"
| "run K w (c # cs) = (case step K w c of None \<Rightarrow> None | Some w' \<Rightarrow> run K w' cs)"

text \<open>No error flag in a value of the status register.\<close>

definition no_flag :: "twi_defs \<Rightarrow> u8 \<Rightarrow> bool" where
  "no_flag K st \<longleftrightarrow>
     st AND TWI_RXACK_bm K = 0 \<and> st AND TWI_ARBLOST_bm K = 0 \<and> st AND TWI_BUSERR_bm K = 0"

text \<open>The state whose callback the handler runs: the state in \<open>i2c_fsm\<close> after the three
  tests.\<close>

definition effective_state :: "twi_defs \<Rightarrow> world \<Rightarrow> i2c_states_t" where
  "effective_state K w = state (i2c_fsm (triage K w))"

text \<open>The world after the handler has run the callback of \<open>s\<close>, when that callback is a
  stop: the dispatch is logged, the stop command is or-ed into \<open>MCTRLB\<close>, and the state
  stored is idle.\<close>

definition stopped :: "twi_defs \<Rightarrow> i2c_states_t \<Rightarrow> world \<Rightarrow> world" where
  "stopped K s w =
     set_state I2C_IDLE
       (reg_write R_MCTRLB (MCTRLB (TWI0 w) OR TWI_MCMD_STOP_gc K)
          (w\<lparr>trace := trace w @ [Dispatch s]\<rparr>))"

text \<open>The machine at power-on, before \<open>i2c_master_init\<close>: the zero-initialised global, the
  registers at zero, nothing logged. Used to evaluate the driver on concrete runs.\<close>

definition power_on :: world where
  "power_on =
     \<lparr>i2c_fsm = i2c_fsm_zero,
      TWI0 = \<lparr>CTRLA = 0, DBGCTRL = 0, MBAUD = 0, MCTRLA = 0, MCTRLB = 0, MSTATUS = 0,
              MADDR = 0, MDATA = 0\<rparr>,
      trace = []\<rparr>"

text \<open>The machine in the middle of writing three bytes to the device at address 0x50,
  the first byte sent.\<close>

definition mid_tx :: world where
  "mid_tx =
     \<lparr>i2c_fsm = \<lparr>slave_addr = 0xA0, byte_array = [1, 2, 3], size_byte_array = 3,
                 byte_count = 1, state = I2C_TX_BYTE\<rparr>,
      TWI0 = \<lparr>CTRLA = 0, DBGCTRL = 0, MBAUD = 0, MCTRLA = 0, MCTRLB = 0, MSTATUS = 0,
              MADDR = 0xA0, MDATA = 1\<rparr>,
      trace = [Dispatch I2C_START, Write R_MADDR 0xA0, Dispatch I2C_TX_BYTE, Write R_MDATA 1]\<rparr>"

subsection \<open>Invariants of the machine\<close>





subsection \<open>Runs of interrupts\<close>

text \<open>A list of interrupts, each with the status and the data the peripheral presents;
  and the number of interrupts before the first whose status has an error flag.\<close>

definition events :: "(u8 \<times> u8) list \<Rightarrow> call list" where
  "events es = map (\<lambda>(st, d). Event st d) es"

definition clean_prefix :: "twi_defs \<Rightarrow> (u8 \<times> u8) list \<Rightarrow> nat" where
  "clean_prefix K es = length (takeWhile (\<lambda>(st, d). no_flag K st) es)"

section \<open>Properties\<close>

subsection \<open>One run of the handler\<close>

lemma call_state_simps:
  "call_state K I2C_IDLE w = I2C_M_IDLE (w\<lparr>trace := trace w @ [Dispatch I2C_IDLE]\<rparr>)"
  "call_state K I2C_START w = I2C_M_START K (w\<lparr>trace := trace w @ [Dispatch I2C_START]\<rparr>)"
  "call_state K I2C_STOP w = I2C_M_STOP K (w\<lparr>trace := trace w @ [Dispatch I2C_STOP]\<rparr>)"
  "call_state K I2C_RESET w = I2C_M_RESET K (w\<lparr>trace := trace w @ [Dispatch I2C_RESET]\<rparr>)"
  "call_state K I2C_TX_BYTE w = I2C_M_TX (w\<lparr>trace := trace w @ [Dispatch I2C_TX_BYTE]\<rparr>)"
  "call_state K I2C_RX_BYTE w = I2C_M_RX (w\<lparr>trace := trace w @ [Dispatch I2C_RX_BYTE]\<rparr>)"
  "call_state K I2C_NACK w = I2C_M_RX_NACK K (w\<lparr>trace := trace w @ [Dispatch I2C_NACK]\<rparr>)"
  "call_state K I2C_ARB_ERR w = I2C_M_ARB_LOST K (w\<lparr>trace := trace w @ [Dispatch I2C_ARB_ERR]\<rparr>)"
  "call_state K I2C_BUS_ERR w = I2C_M_BUS_ERR K (w\<lparr>trace := trace w @ [Dispatch I2C_BUS_ERR]\<rparr>)"
  by (simp_all add: call_state_def state_callbacks_def)

lemma effective_state_eq:
  "effective_state K w =
     (if MSTATUS (TWI0 w) AND TWI_BUSERR_bm K \<noteq> 0 then I2C_BUS_ERR
      else if MSTATUS (TWI0 w) AND TWI_ARBLOST_bm K \<noteq> 0 then I2C_ARB_ERR
      else if MSTATUS (TWI0 w) AND TWI_RXACK_bm K \<noteq> 0 then I2C_NACK
      else state (i2c_fsm w))"
  by (simp add: effective_state_def triage_def set_state_def Let_def)

lemma triage_eq: "triage K w = set_state (effective_state K w) w"
  by (simp add: effective_state_eq) (simp add: triage_def set_state_def Let_def)

lemma isr_eq:
  "i2c_state_isr K w =
     (case call_state K (effective_state K w) (set_state (effective_state K w) w) of
        None \<Rightarrow> None
      | Some (s, w4) \<Rightarrow> Some (set_state s w4))"
proof -
  have "state (i2c_fsm (triage K w)) = effective_state K w"
    by (simp add: effective_state_def)
  then show ?thesis
    by (simp add: i2c_state_isr_def Let_def triage_eq [symmetric])
qed

lemma effective_no_flag:
  "no_flag K (MSTATUS (TWI0 w)) \<Longrightarrow> effective_state K w = state (i2c_fsm w)"
  by (simp add: effective_state_eq no_flag_def)

lemma effective_flag:
  "\<not> no_flag K (MSTATUS (TWI0 w)) \<Longrightarrow>
     effective_state K w \<in> {I2C_NACK, I2C_ARB_ERR, I2C_BUS_ERR}"
  by (auto simp add: effective_state_eq no_flag_def)

lemma isr_stop:
  "effective_state K w \<in> {I2C_STOP, I2C_NACK, I2C_ARB_ERR, I2C_BUS_ERR} \<Longrightarrow>
     i2c_state_isr K w = Some (stopped K (effective_state K w) w)"
  by (auto simp add: isr_eq call_state_simps I2C_M_STOP_def I2C_M_RX_NACK_def
      I2C_M_ARB_LOST_def I2C_M_BUS_ERR_def stopped_def set_state_def reg_write_def)

lemma isr_idle:
  "effective_state K w = I2C_IDLE \<Longrightarrow>
     i2c_state_isr K w = Some (set_state I2C_IDLE (w\<lparr>trace := trace w @ [Dispatch I2C_IDLE]\<rparr>))"
  by (simp add: isr_eq call_state_simps I2C_M_IDLE_def set_state_def)

lemma isr_start:
  "effective_state K w = I2C_START \<Longrightarrow>
     i2c_state_isr K w =
       Some (w\<lparr>i2c_fsm := (i2c_fsm w)
                 \<lparr>byte_count := 0,
                  state := (if slave_addr (i2c_fsm w) AND I2C_READ_bm K \<noteq> 0
                            then I2C_RX_BYTE else I2C_TX_BYTE)\<rparr>,
               TWI0 := (TWI0 w)\<lparr>MADDR := slave_addr (i2c_fsm w)\<rparr>,
               trace := trace w @ [Dispatch I2C_START, Write R_MADDR (slave_addr (i2c_fsm w))]\<rparr>)"
  by (simp add: isr_eq call_state_simps I2C_M_START_def set_state_def reg_write_def Let_def)

lemma isr_tx:
  "effective_state K w = I2C_TX_BYTE \<Longrightarrow>
   unat (byte_count (i2c_fsm w)) < length (byte_array (i2c_fsm w)) \<Longrightarrow>
     i2c_state_isr K w =
       Some (w\<lparr>i2c_fsm := (i2c_fsm w)
                 \<lparr>byte_count := byte_count (i2c_fsm w) + 1,
                  state := (if size_byte_array (i2c_fsm w) \<le> byte_count (i2c_fsm w) + 1
                            then I2C_STOP else I2C_TX_BYTE)\<rparr>,
               TWI0 := (TWI0 w)\<lparr>MDATA := byte_array (i2c_fsm w) ! unat (byte_count (i2c_fsm w))\<rparr>,
               trace := trace w @ [Dispatch I2C_TX_BYTE,
                  Write R_MDATA (byte_array (i2c_fsm w) ! unat (byte_count (i2c_fsm w)))]\<rparr>)"
  by (simp add: isr_eq call_state_simps I2C_M_TX_def set_state_def reg_write_def Let_def)

lemma isr_rx:
  "effective_state K w = I2C_RX_BYTE \<Longrightarrow>
   unat (byte_count (i2c_fsm w)) < length (byte_array (i2c_fsm w)) \<Longrightarrow>
     i2c_state_isr K w =
       Some (w\<lparr>i2c_fsm := (i2c_fsm w)
                 \<lparr>byte_array := (byte_array (i2c_fsm w))
                     [unat (byte_count (i2c_fsm w)) := MDATA (TWI0 w)],
                  byte_count := byte_count (i2c_fsm w) + 1,
                  state := (if size_byte_array (i2c_fsm w) \<le> byte_count (i2c_fsm w) + 1
                            then I2C_STOP else I2C_RX_BYTE)\<rparr>,
               trace := trace w @ [Dispatch I2C_RX_BYTE, Read R_MDATA (MDATA (TWI0 w))]\<rparr>)"
  by (simp add: isr_eq call_state_simps I2C_M_RX_def set_state_def reg_write_def Let_def)


text \<open>The definitions that evaluate the driver on a concrete machine.\<close>

lemmas eval_defs =
  TWI0_TWIM_vect_def i2c_state_isr_def triage_def call_state_def state_callbacks_def
  I2C_M_IDLE_def I2C_M_START_def I2C_M_STOP_def I2C_M_RESET_def I2C_M_TX_def I2C_M_RX_def
  I2C_M_RX_NACK_def I2C_M_ARB_LOST_def I2C_M_BUS_ERR_def i2c_start_def i2c_set_buffer_def
  hw_event_def set_state_def reg_write_def Let_def power_on_def i2c_fsm_zero_def
  mega4809_def word_le_nat_alt

lemmas run_defs = eval_defs i2c_master_init_def init_config_def events_def clean_prefix_def
  no_flag_def

lemma mid_tx_reached:
  "run mega4809 power_on [SetBuffer [1, 2, 3] 3, Begin 0x50 0, Event 0 0] = Some mid_tx"
  by (simp add: eval_defs mid_tx_def)

lemma isr_some_start:
  "effective_state K w \<in> {I2C_START, I2C_NACK, I2C_ARB_ERR, I2C_BUS_ERR} \<Longrightarrow>
     \<exists>w' r v. i2c_state_isr K w = Some w'
        \<and> slave_addr (i2c_fsm w') = slave_addr (i2c_fsm w)
        \<and> trace w' = trace w @ [Dispatch (effective_state K w), Write r v]"
  using isr_stop [of K w] isr_start [of K w]
  by (auto simp add: stopped_def set_state_def reg_write_def)

subsection \<open>Starting a transaction\<close>

text \<open>
  C1. \<open>i2c_start\<close> has an effect exactly when the machine is idle. Idle, it records
  \<open>addr << 1 | read_write\<close> as the address, stores the start state and runs the handler
  once: the call returns, the address is the one recorded, and exactly one callback has
  been dispatched and one register written; with no error flag in the status register
  that callback is the start and the machine has left idle. Not idle, the call returns
  the machine as it was, every field unchanged.
\<close>

theorem i2c_start_idle_only:
  "i2c_start K addr read_write w =
     (if state (i2c_fsm w) = I2C_IDLE
      then i2c_state_isr K
             (w\<lparr>i2c_fsm := (i2c_fsm w)
                  \<lparr>slave_addr := push_bit 1 addr OR read_write, state := I2C_START\<rparr>\<rparr>)
      else Some w)
   \<and> (state (i2c_fsm w) = I2C_IDLE \<longrightarrow>
        (\<exists>w' s r v. i2c_start K addr read_write w = Some w'
           \<and> slave_addr (i2c_fsm w') = push_bit 1 addr OR read_write
           \<and> trace w' = trace w @ [Dispatch s, Write r v]
           \<and> s \<in> {I2C_START, I2C_NACK, I2C_ARB_ERR, I2C_BUS_ERR}
           \<and> (no_flag K (MSTATUS (TWI0 w)) \<longrightarrow>
                s = I2C_START \<and> state (i2c_fsm w') \<noteq> I2C_IDLE)))
   \<and> (i2c_start K addr read_write w = Some w \<longleftrightarrow> state (i2c_fsm w) \<noteq> I2C_IDLE)"
proof -
  let ?w2 = "w\<lparr>i2c_fsm := (i2c_fsm w)
                  \<lparr>slave_addr := push_bit 1 addr OR read_write, state := I2C_START\<rparr>\<rparr>"
  have unfold: "i2c_start K addr read_write w =
     (if state (i2c_fsm w) = I2C_IDLE then i2c_state_isr K ?w2 else Some w)"
    by (simp add: i2c_start_def set_state_def Let_def)
  have eff: "effective_state K ?w2 \<in> {I2C_START, I2C_NACK, I2C_ARB_ERR, I2C_BUS_ERR}"
    by (simp add: effective_state_eq)
  from isr_some_start [OF eff] obtain w' r v where
    w': "i2c_state_isr K ?w2 = Some w'"
      "slave_addr (i2c_fsm w') = push_bit 1 addr OR read_write"
      "trace w' = trace w @ [Dispatch (effective_state K ?w2), Write r v]"
    by auto
  have clean: "effective_state K ?w2 = I2C_START \<and> state (i2c_fsm w') \<noteq> I2C_IDLE"
    if "no_flag K (MSTATUS (TWI0 w))"
  proof -
    have e: "effective_state K ?w2 = I2C_START"
      using that effective_no_flag [of K ?w2] by simp
    show ?thesis
      using w'(1) isr_start [OF e] e by auto
  qed
  have idle: "\<exists>w' s r v. i2c_start K addr read_write w = Some w'
           \<and> slave_addr (i2c_fsm w') = push_bit 1 addr OR read_write
           \<and> trace w' = trace w @ [Dispatch s, Write r v]
           \<and> s \<in> {I2C_START, I2C_NACK, I2C_ARB_ERR, I2C_BUS_ERR}
           \<and> (no_flag K (MSTATUS (TWI0 w)) \<longrightarrow>
                s = I2C_START \<and> state (i2c_fsm w') \<noteq> I2C_IDLE)"
    if "state (i2c_fsm w) = I2C_IDLE"
    using that unfold w' eff clean by auto
  have changed: "i2c_start K addr read_write w \<noteq> Some w" if "state (i2c_fsm w) = I2C_IDLE"
    using that unfold w' by auto
  show ?thesis
    using unfold idle changed by auto
qed

text \<open>At power-on the call starts a write to address 0x50; in the middle of a transfer it
  does nothing.\<close>

theorem i2c_start_idle_only_witness:
  "state (i2c_fsm power_on) = I2C_IDLE
   \<and> no_flag mega4809 (MSTATUS (TWI0 power_on))
   \<and> map_option i2c_fsm (i2c_start mega4809 0x50 0 power_on) =
       Some \<lparr>slave_addr = 0xA0, byte_array = [], size_byte_array = 0, byte_count = 0,
             state = I2C_TX_BYTE\<rparr>
   \<and> map_option trace (i2c_start mega4809 0x50 0 power_on) =
       Some [Dispatch I2C_START, Write R_MADDR 0xA0]
   \<and> state (i2c_fsm (set_state I2C_TX_BYTE power_on)) \<noteq> I2C_IDLE
   \<and> i2c_start mega4809 0x50 0 (set_state I2C_TX_BYTE power_on)
       = Some (set_state I2C_TX_BYTE power_on)"
  using i2c_start_idle_only [of mega4809 "0x50" 0 power_on]
    i2c_start_idle_only [of mega4809 "0x50" 0 "set_state I2C_TX_BYTE power_on"]
  by (simp add: power_on_def i2c_fsm_zero_def set_state_def no_flag_def mega4809_def
      isr_start effective_state_eq)

subsection \<open>The byte callbacks\<close>

text \<open>
  C4, as stated, fails: the callbacks compare with \<open>>=\<close>, not with equality. With a
  length of 0 the incremented cursor is 1, which differs from the length, and both
  callbacks return the stop state instead of staying in the byte state.
\<close>

theorem byte_phase_equality_counterexample:
  "size_byte_array (i2c_fsm (i2c_set_buffer [0x55] 0 power_on)) = 0
   \<and> byte_count (i2c_fsm (i2c_set_buffer [0x55] 0 power_on)) + 1 = 1
   \<and> map_option fst (I2C_M_TX (i2c_set_buffer [0x55] 0 power_on)) = Some I2C_STOP
   \<and> map_option fst (I2C_M_TX (i2c_set_buffer [0x55] 0 power_on)) \<noteq>
       Some (if byte_count (i2c_fsm (i2c_set_buffer [0x55] 0 power_on)) + 1
                = size_byte_array (i2c_fsm (i2c_set_buffer [0x55] 0 power_on))
             then I2C_STOP else I2C_TX_BYTE)
   \<and> map_option fst (I2C_M_RX (i2c_set_buffer [0x55] 0 power_on)) = Some I2C_STOP
   \<and> map_option fst (I2C_M_RX (i2c_set_buffer [0x55] 0 power_on)) \<noteq>
       Some (if byte_count (i2c_fsm (i2c_set_buffer [0x55] 0 power_on)) + 1
                = size_byte_array (i2c_fsm (i2c_set_buffer [0x55] 0 power_on))
             then I2C_STOP else I2C_RX_BYTE)"
  by (simp add: I2C_M_TX_def I2C_M_RX_def reg_write_def Let_def i2c_set_buffer_def
      power_on_def i2c_fsm_zero_def)

text \<open>
  C4, amended. With the cursor inside the array, the transmit callback writes
  \<open>byte_array[byte_count]\<close> to the data register and increments the cursor (modulo 256);
  the receive callback stores the data register at \<open>byte_array[byte_count]\<close> and
  increments the cursor. Each returns the stop state if the incremented cursor is greater
  than or equal to the length, and its own byte state otherwise; so with a length of 0
  each returns the stop state. With the cursor outside the array the access is undefined.
  The comparison is that of the numbers, the incremented cursor taken modulo 256.
\<close>

theorem byte_phase_post:
  "(unat (byte_count (i2c_fsm w)) < length (byte_array (i2c_fsm w)) \<longrightarrow>
      I2C_M_TX w =
        Some (if size_byte_array (i2c_fsm w) \<le> byte_count (i2c_fsm w) + 1
              then I2C_STOP else I2C_TX_BYTE,
              w\<lparr>i2c_fsm := (i2c_fsm w)\<lparr>byte_count := byte_count (i2c_fsm w) + 1\<rparr>,
                TWI0 := (TWI0 w)
                  \<lparr>MDATA := byte_array (i2c_fsm w) ! unat (byte_count (i2c_fsm w))\<rparr>,
                trace := trace w
                  @ [Write R_MDATA (byte_array (i2c_fsm w) ! unat (byte_count (i2c_fsm w)))]\<rparr>)
      \<and> I2C_M_RX w =
        Some (if size_byte_array (i2c_fsm w) \<le> byte_count (i2c_fsm w) + 1
              then I2C_STOP else I2C_RX_BYTE,
              w\<lparr>i2c_fsm := (i2c_fsm w)
                  \<lparr>byte_array := (byte_array (i2c_fsm w))
                      [unat (byte_count (i2c_fsm w)) := MDATA (TWI0 w)],
                   byte_count := byte_count (i2c_fsm w) + 1\<rparr>,
                trace := trace w @ [Read R_MDATA (MDATA (TWI0 w))]\<rparr>)
      \<and> (size_byte_array (i2c_fsm w) = 0 \<longrightarrow>
            map_option fst (I2C_M_TX w) = Some I2C_STOP
            \<and> map_option fst (I2C_M_RX w) = Some I2C_STOP))
   \<and> (\<not> unat (byte_count (i2c_fsm w)) < length (byte_array (i2c_fsm w)) \<longrightarrow>
        I2C_M_TX w = None \<and> I2C_M_RX w = None)
   \<and> (size_byte_array (i2c_fsm w) \<le> byte_count (i2c_fsm w) + 1 \<longleftrightarrow>
        unat (size_byte_array (i2c_fsm w)) \<le> (unat (byte_count (i2c_fsm w)) + 1) mod 256)"
proof -
  let ?c = "byte_count (i2c_fsm w)" and ?n = "size_byte_array (i2c_fsm w)"
  let ?inside = "unat ?c < length (byte_array (i2c_fsm w))"
  have tx: "I2C_M_TX w =
        Some (if ?n \<le> ?c + 1 then I2C_STOP else I2C_TX_BYTE,
              w\<lparr>i2c_fsm := (i2c_fsm w)\<lparr>byte_count := ?c + 1\<rparr>,
                TWI0 := (TWI0 w)\<lparr>MDATA := byte_array (i2c_fsm w) ! unat ?c\<rparr>,
                trace := trace w @ [Write R_MDATA (byte_array (i2c_fsm w) ! unat ?c)]\<rparr>)"
    if ?inside
    using that by (simp add: I2C_M_TX_def reg_write_def Let_def)
  have rx: "I2C_M_RX w =
        Some (if ?n \<le> ?c + 1 then I2C_STOP else I2C_RX_BYTE,
              w\<lparr>i2c_fsm := (i2c_fsm w)
                  \<lparr>byte_array := (byte_array (i2c_fsm w))[unat ?c := MDATA (TWI0 w)],
                   byte_count := ?c + 1\<rparr>,
                trace := trace w @ [Read R_MDATA (MDATA (TWI0 w))]\<rparr>)"
    if ?inside
    using that by (simp add: I2C_M_RX_def Let_def)
  have zero: "map_option fst (I2C_M_TX w) = Some I2C_STOP
      \<and> map_option fst (I2C_M_RX w) = Some I2C_STOP"
    if ?inside "?n = 0"
    using that tx rx by simp
  have outside: "I2C_M_TX w = None \<and> I2C_M_RX w = None" if "\<not> ?inside"
    using that by (simp add: I2C_M_TX_def I2C_M_RX_def Let_def)
  have wrap: "?n \<le> ?c + 1 \<longleftrightarrow> unat ?n \<le> (unat ?c + 1) mod 256"
    by (simp add: word_le_nat_alt unat_word_ariths)
  show ?thesis
    using tx rx zero outside wrap by blast
qed

theorem byte_phase_post_witness:
  "unat (byte_count (i2c_fsm (i2c_set_buffer [0x10, 0x20] 2 power_on)))
     < length (byte_array (i2c_fsm (i2c_set_buffer [0x10, 0x20] 2 power_on)))
   \<and> map_option fst (I2C_M_TX (i2c_set_buffer [0x10, 0x20] 2 power_on)) = Some I2C_TX_BYTE
   \<and> map_option fst (I2C_M_RX (i2c_set_buffer [0x10, 0x20] 2 power_on)) = Some I2C_RX_BYTE
   \<and> unat (byte_count (i2c_fsm (i2c_set_buffer [0x10] 0 power_on)))
     < length (byte_array (i2c_fsm (i2c_set_buffer [0x10] 0 power_on)))
   \<and> size_byte_array (i2c_fsm (i2c_set_buffer [0x10] 0 power_on)) = 0
   \<and> map_option fst (I2C_M_TX (i2c_set_buffer [0x10] 0 power_on)) = Some I2C_STOP
   \<and> \<not> unat (byte_count (i2c_fsm power_on)) < length (byte_array (i2c_fsm power_on))
   \<and> I2C_M_TX power_on = None"
  using byte_phase_post [of "i2c_set_buffer [0x10, 0x20] 2 power_on"]
    byte_phase_post [of "i2c_set_buffer [0x10] 0 power_on"]
    byte_phase_post [of power_on]
  by (simp add: i2c_set_buffer_def power_on_def i2c_fsm_zero_def word_le_nat_alt)

subsection \<open>Aborting on an error\<close>

text \<open>
  C5. The callbacks of the three error states are the stop callback: it or-s the stop
  command into \<open>MCTRLB\<close>, returns idle and changes nothing in \<open>i2c_fsm\<close>. In the middle
  of a transmission with the cursor at 1 and the length 3, an interrupt whose status has
  the peer-NACK flag dispatches an error state (the NACK state when no other flag is
  set), issues the stop command and stores idle; the cursor stays 1, and the length, the
  buffer and the address are unchanged.
\<close>

theorem error_abort:
  "I2C_M_RX_NACK K = I2C_M_STOP K
   \<and> I2C_M_ARB_LOST K = I2C_M_STOP K
   \<and> I2C_M_BUS_ERR K = I2C_M_STOP K
   \<and> I2C_M_STOP K w =
       Some (I2C_IDLE,
             w\<lparr>TWI0 := (TWI0 w)\<lparr>MCTRLB := MCTRLB (TWI0 w) OR TWI_MCMD_STOP_gc K\<rparr>,
               trace := trace w @ [Write R_MCTRLB (MCTRLB (TWI0 w) OR TWI_MCMD_STOP_gc K)]\<rparr>)
   \<and> (state (i2c_fsm w) = I2C_TX_BYTE \<and> byte_count (i2c_fsm w) = 1
        \<and> size_byte_array (i2c_fsm w) = 3 \<and> st AND TWI_RXACK_bm K \<noteq> 0 \<longrightarrow>
        (\<exists>s. TWI0_TWIM_vect K (hw_event st d w) =
           Some (w\<lparr>i2c_fsm := (i2c_fsm w)\<lparr>state := I2C_IDLE\<rparr>,
                   TWI0 := (TWI0 w)
                     \<lparr>MCTRLB := MCTRLB (TWI0 w) OR TWI_MCMD_STOP_gc K, MSTATUS := st,
                      MDATA := d\<rparr>,
                   trace := trace w
                     @ [Dispatch s, Write R_MCTRLB (MCTRLB (TWI0 w) OR TWI_MCMD_STOP_gc K)]\<rparr>)
           \<and> s = effective_state K (hw_event st d w)
           \<and> s \<in> {I2C_NACK, I2C_ARB_ERR, I2C_BUS_ERR}
           \<and> (st AND TWI_ARBLOST_bm K = 0 \<and> st AND TWI_BUSERR_bm K = 0 \<longrightarrow> s = I2C_NACK)))"
proof -
  have same: "I2C_M_RX_NACK K = I2C_M_STOP K" "I2C_M_ARB_LOST K = I2C_M_STOP K"
    "I2C_M_BUS_ERR K = I2C_M_STOP K"
    by (simp_all add: fun_eq_iff I2C_M_RX_NACK_def I2C_M_ARB_LOST_def I2C_M_BUS_ERR_def)
  have stop: "I2C_M_STOP K w =
       Some (I2C_IDLE,
             w\<lparr>TWI0 := (TWI0 w)\<lparr>MCTRLB := MCTRLB (TWI0 w) OR TWI_MCMD_STOP_gc K\<rparr>,
               trace := trace w @ [Write R_MCTRLB (MCTRLB (TWI0 w) OR TWI_MCMD_STOP_gc K)]\<rparr>)"
    by (simp add: I2C_M_STOP_def reg_write_def)
  have scen: "\<exists>s. TWI0_TWIM_vect K (hw_event st d w) =
           Some (w\<lparr>i2c_fsm := (i2c_fsm w)\<lparr>state := I2C_IDLE\<rparr>,
                   TWI0 := (TWI0 w)
                     \<lparr>MCTRLB := MCTRLB (TWI0 w) OR TWI_MCMD_STOP_gc K, MSTATUS := st,
                      MDATA := d\<rparr>,
                   trace := trace w
                     @ [Dispatch s, Write R_MCTRLB (MCTRLB (TWI0 w) OR TWI_MCMD_STOP_gc K)]\<rparr>)
           \<and> s = effective_state K (hw_event st d w)
           \<and> s \<in> {I2C_NACK, I2C_ARB_ERR, I2C_BUS_ERR}
           \<and> (st AND TWI_ARBLOST_bm K = 0 \<and> st AND TWI_BUSERR_bm K = 0 \<longrightarrow> s = I2C_NACK)"
    if nack: "st AND TWI_RXACK_bm K \<noteq> 0"
  proof -
    let ?w = "hw_event st d w"
    have flag: "\<not> no_flag K (MSTATUS (TWI0 ?w))"
      using nack by (simp add: no_flag_def hw_event_def)
    have eff: "effective_state K ?w \<in> {I2C_NACK, I2C_ARB_ERR, I2C_BUS_ERR}"
      by (rule effective_flag [OF flag])
    then have "i2c_state_isr K ?w = Some (stopped K (effective_state K ?w) ?w)"
      using isr_stop [of K ?w] by auto
    moreover have "st AND TWI_ARBLOST_bm K = 0 \<and> st AND TWI_BUSERR_bm K = 0
        \<longrightarrow> effective_state K ?w = I2C_NACK"
      using nack by (simp add: effective_state_eq hw_event_def)
    ultimately show ?thesis
      using eff
      by (simp add: TWI0_TWIM_vect_def stopped_def set_state_def reg_write_def hw_event_def)
  qed
  show ?thesis
    using same stop scen by simp
qed

theorem error_abort_witness:
  "state (i2c_fsm mid_tx) = I2C_TX_BYTE
   \<and> byte_count (i2c_fsm mid_tx) = 1
   \<and> size_byte_array (i2c_fsm mid_tx) = 3
   \<and> (0x10 :: u8) AND TWI_RXACK_bm mega4809 \<noteq> 0
   \<and> (0x10 :: u8) AND TWI_ARBLOST_bm mega4809 = 0
   \<and> (0x10 :: u8) AND TWI_BUSERR_bm mega4809 = 0
   \<and> TWI0_TWIM_vect mega4809 (hw_event 0x10 0 mid_tx) =
       Some \<lparr>i2c_fsm = \<lparr>slave_addr = 0xA0, byte_array = [1, 2, 3], size_byte_array = 3,
                         byte_count = 1, state = I2C_IDLE\<rparr>,
             TWI0 = \<lparr>CTRLA = 0, DBGCTRL = 0, MBAUD = 0, MCTRLA = 0, MCTRLB = 0x03,
                      MSTATUS = 0x10, MADDR = 0xA0, MDATA = 0\<rparr>,
             trace = [Dispatch I2C_START, Write R_MADDR 0xA0, Dispatch I2C_TX_BYTE,
                      Write R_MDATA 1, Dispatch I2C_NACK, Write R_MCTRLB 0x03]\<rparr>"
  using error_abort [of mega4809 mid_tx "0x10" 0]
  by (simp add: mid_tx_def mega4809_def)

subsection \<open>The triage of the status flags\<close>

text \<open>
  C3. On every run of the handler the state whose callback runs is decided by the three
  flags read in the order peer-NACK, arbitration-lost, bus-error, each set flag storing
  its error state over the previous one, so the last set flag wins: bus-error over
  arbitration-lost over peer-NACK over the stored state. The handler runs the callback
  of that state and stores what it returns. In particular, with peer-NACK and bus-error
  both set the callback that runs is that of \<open>I2C_BUS_ERR\<close>, whatever the stored state.
\<close>

theorem triage_order:
  "effective_state K w =
     (if MSTATUS (TWI0 w) AND TWI_BUSERR_bm K \<noteq> 0 then I2C_BUS_ERR
      else if MSTATUS (TWI0 w) AND TWI_ARBLOST_bm K \<noteq> 0 then I2C_ARB_ERR
      else if MSTATUS (TWI0 w) AND TWI_RXACK_bm K \<noteq> 0 then I2C_NACK
      else state (i2c_fsm w))
   \<and> triage K w = set_state (effective_state K w) w
   \<and> i2c_state_isr K w =
       (case call_state K (effective_state K w) (set_state (effective_state K w) w) of
          None \<Rightarrow> None
        | Some (s, w') \<Rightarrow> Some (set_state s w'))
   \<and> (MSTATUS (TWI0 w) AND TWI_RXACK_bm K \<noteq> 0 \<and> MSTATUS (TWI0 w) AND TWI_BUSERR_bm K \<noteq> 0
        \<longrightarrow> effective_state K w = I2C_BUS_ERR
          \<and> i2c_state_isr K w = Some (stopped K I2C_BUS_ERR w))"
proof -
  have bus: "effective_state K w = I2C_BUS_ERR"
    if "MSTATUS (TWI0 w) AND TWI_BUSERR_bm K \<noteq> 0"
    using that by (simp add: effective_state_eq)
  have "i2c_state_isr K w = Some (stopped K I2C_BUS_ERR w)"
    if "MSTATUS (TWI0 w) AND TWI_BUSERR_bm K \<noteq> 0"
    using isr_stop [of K w] bus [OF that] by simp
  with bus show ?thesis
    using effective_state_eq [of K w] triage_eq [of K w] isr_eq [of K w] by simp
qed

text \<open>The bits 0x10 and 0x04 both set, in the middle of a transmission.\<close>

theorem triage_order_witness:
  "effective_state mega4809 (hw_event 0x14 0 (set_state I2C_TX_BYTE power_on)) = I2C_BUS_ERR
   \<and> MSTATUS (TWI0 (hw_event 0x14 0 (set_state I2C_TX_BYTE power_on))) AND TWI_RXACK_bm mega4809 \<noteq> 0
   \<and> MSTATUS (TWI0 (hw_event 0x14 0 (set_state I2C_TX_BYTE power_on))) AND TWI_BUSERR_bm mega4809 \<noteq> 0"
  using triage_order [of mega4809 "hw_event 0x14 0 (set_state I2C_TX_BYTE power_on)"]
  by (simp add: hw_event_def set_state_def power_on_def mega4809_def)

subsection \<open>The table of callbacks\<close>

text \<open>
  C7. The lookup of the handler is total. The table has nine entries, the index of each
  of the nine states is inside it, and the entry there is the callback of that state,
  the table being in the order of the enumeration. So the call the handler makes,
  \<open>state_callbacks[i2c_fsm.state]()\<close>, reaches for every state the callback of that state
  and never an index outside the table: the handler runs the callback at the index of
  the state that the triage leaves, and stores what it returns. The call, and with it the
  handler, is undefined only when a byte callback is reached with the cursor outside the
  array, never for want of an entry.
\<close>

theorem state_callbacks_total:
  "length (state_callbacks K) = 9
   \<and> state_index s < length (state_callbacks K)
   \<and> map state_index
       [I2C_IDLE, I2C_START, I2C_STOP, I2C_RESET, I2C_TX_BYTE, I2C_RX_BYTE, I2C_NACK,
        I2C_ARB_ERR, I2C_BUS_ERR] = [0 ..< 9]
   \<and> map (\<lambda>s. state_callbacks K ! state_index s)
       [I2C_IDLE, I2C_START, I2C_STOP, I2C_RESET, I2C_TX_BYTE, I2C_RX_BYTE, I2C_NACK,
        I2C_ARB_ERR, I2C_BUS_ERR]
     = [I2C_M_IDLE, I2C_M_START K, I2C_M_STOP K, I2C_M_RESET K, I2C_M_TX, I2C_M_RX,
        I2C_M_RX_NACK K, I2C_M_ARB_LOST K, I2C_M_BUS_ERR K]
   \<and> call_state K s w =
       (state_callbacks K ! state_index s) (w\<lparr>trace := trace w @ [Dispatch s]\<rparr>)
   \<and> map (\<lambda>s. call_state K s w)
       [I2C_IDLE, I2C_START, I2C_STOP, I2C_RESET, I2C_TX_BYTE, I2C_RX_BYTE, I2C_NACK,
        I2C_ARB_ERR, I2C_BUS_ERR]
     = [I2C_M_IDLE (w\<lparr>trace := trace w @ [Dispatch I2C_IDLE]\<rparr>),
        I2C_M_START K (w\<lparr>trace := trace w @ [Dispatch I2C_START]\<rparr>),
        I2C_M_STOP K (w\<lparr>trace := trace w @ [Dispatch I2C_STOP]\<rparr>),
        I2C_M_RESET K (w\<lparr>trace := trace w @ [Dispatch I2C_RESET]\<rparr>),
        I2C_M_TX (w\<lparr>trace := trace w @ [Dispatch I2C_TX_BYTE]\<rparr>),
        I2C_M_RX (w\<lparr>trace := trace w @ [Dispatch I2C_RX_BYTE]\<rparr>),
        I2C_M_RX_NACK K (w\<lparr>trace := trace w @ [Dispatch I2C_NACK]\<rparr>),
        I2C_M_ARB_LOST K (w\<lparr>trace := trace w @ [Dispatch I2C_ARB_ERR]\<rparr>),
        I2C_M_BUS_ERR K (w\<lparr>trace := trace w @ [Dispatch I2C_BUS_ERR]\<rparr>)]
   \<and> i2c_state_isr K w =
       (case (state_callbacks K ! state_index (effective_state K w))
               ((triage K w)\<lparr>trace := trace w @ [Dispatch (effective_state K w)]\<rparr>) of
          None \<Rightarrow> None
        | Some (s', w') \<Rightarrow> Some (set_state s' w'))
   \<and> (call_state K s w = None \<longleftrightarrow>
        s \<in> {I2C_TX_BYTE, I2C_RX_BYTE}
        \<and> \<not> unat (byte_count (i2c_fsm w)) < length (byte_array (i2c_fsm w)))
   \<and> (i2c_state_isr K w = None \<longleftrightarrow>
        effective_state K w \<in> {I2C_TX_BYTE, I2C_RX_BYTE}
        \<and> \<not> unat (byte_count (i2c_fsm w)) < length (byte_array (i2c_fsm w)))"
proof -
  have len: "length (state_callbacks K) = 9"
    by (simp add: state_callbacks_def)
  have idx: "state_index s < 9" for s
    by (cases s) simp_all
  have ord: "[0 ..< 9] = [0, 1, 2, 3, 4, 5, 6, 7, 8::nat]"
    by (simp add: upt_rec)
  have table: "map (\<lambda>s. state_callbacks K ! state_index s)
       [I2C_IDLE, I2C_START, I2C_STOP, I2C_RESET, I2C_TX_BYTE, I2C_RX_BYTE, I2C_NACK,
        I2C_ARB_ERR, I2C_BUS_ERR]
     = [I2C_M_IDLE, I2C_M_START K, I2C_M_STOP K, I2C_M_RESET K, I2C_M_TX, I2C_M_RX,
        I2C_M_RX_NACK K, I2C_M_ARB_LOST K, I2C_M_BUS_ERR K]"
    by (simp add: state_callbacks_def)
  have look: "call_state K s v =
       (state_callbacks K ! state_index s) (v\<lparr>trace := trace v @ [Dispatch s]\<rparr>)" for s v
    using len idx [of s] by (simp add: call_state_def)
  have each: "map (\<lambda>s. call_state K s w)
       [I2C_IDLE, I2C_START, I2C_STOP, I2C_RESET, I2C_TX_BYTE, I2C_RX_BYTE, I2C_NACK,
        I2C_ARB_ERR, I2C_BUS_ERR]
     = [I2C_M_IDLE (w\<lparr>trace := trace w @ [Dispatch I2C_IDLE]\<rparr>),
        I2C_M_START K (w\<lparr>trace := trace w @ [Dispatch I2C_START]\<rparr>),
        I2C_M_STOP K (w\<lparr>trace := trace w @ [Dispatch I2C_STOP]\<rparr>),
        I2C_M_RESET K (w\<lparr>trace := trace w @ [Dispatch I2C_RESET]\<rparr>),
        I2C_M_TX (w\<lparr>trace := trace w @ [Dispatch I2C_TX_BYTE]\<rparr>),
        I2C_M_RX (w\<lparr>trace := trace w @ [Dispatch I2C_RX_BYTE]\<rparr>),
        I2C_M_RX_NACK K (w\<lparr>trace := trace w @ [Dispatch I2C_NACK]\<rparr>),
        I2C_M_ARB_LOST K (w\<lparr>trace := trace w @ [Dispatch I2C_ARB_ERR]\<rparr>),
        I2C_M_BUS_ERR K (w\<lparr>trace := trace w @ [Dispatch I2C_BUS_ERR]\<rparr>)]"
    by (simp add: call_state_simps)
  have tr: "trace (triage K w) = trace w"
    by (simp add: triage_def set_state_def Let_def)
  have st: "state (i2c_fsm (triage K w)) = effective_state K w"
    by (simp add: effective_state_def)
  have isr: "i2c_state_isr K w =
       (case (state_callbacks K ! state_index (effective_state K w))
               ((triage K w)\<lparr>trace := trace w @ [Dispatch (effective_state K w)]\<rparr>) of
          None \<Rightarrow> None
        | Some (s', w') \<Rightarrow> Some (set_state s' w'))"
    by (simp only: i2c_state_isr_def Let_def st look tr)
  have undefined_call: "call_state K s v = None \<longleftrightarrow>
        s \<in> {I2C_TX_BYTE, I2C_RX_BYTE}
        \<and> \<not> unat (byte_count (i2c_fsm v)) < length (byte_array (i2c_fsm v))" for s v
    by (cases s)
      (simp_all add: call_state_simps I2C_M_IDLE_def I2C_M_START_def I2C_M_STOP_def
        I2C_M_RESET_def I2C_M_TX_def I2C_M_RX_def I2C_M_RX_NACK_def I2C_M_ARB_LOST_def
        I2C_M_BUS_ERR_def Let_def)
  have fsm: "byte_count (i2c_fsm (triage K w)) = byte_count (i2c_fsm w)"
    "byte_array (i2c_fsm (triage K w)) = byte_array (i2c_fsm w)"
    by (simp_all add: triage_def set_state_def Let_def)
  have undefined_isr: "i2c_state_isr K w = None \<longleftrightarrow>
        effective_state K w \<in> {I2C_TX_BYTE, I2C_RX_BYTE}
        \<and> \<not> unat (byte_count (i2c_fsm w)) < length (byte_array (i2c_fsm w))"
    using undefined_call [of "effective_state K w" "triage K w"] fsm st
    by (auto simp add: i2c_state_isr_def Let_def split: option.splits)
  show ?thesis
    using len idx [of s] table look [of s w] each isr undefined_call [of s w] undefined_isr
    by (simp only: ord) simp
qed

text \<open>At power-on: the stop state reaches the stop callback, the transmit state reaches
  the transmit callback, whose access to the null buffer is the undefined one, and the
  handler itself runs the idle callback.\<close>

theorem state_callbacks_total_witness:
  "call_state mega4809 I2C_STOP power_on =
     Some (I2C_IDLE,
           power_on\<lparr>TWI0 := (TWI0 power_on)\<lparr>MCTRLB := 0x03\<rparr>,
                    trace := [Dispatch I2C_STOP, Write R_MCTRLB 0x03]\<rparr>)
   \<and> state_callbacks mega4809 ! state_index I2C_STOP = I2C_M_STOP mega4809
   \<and> call_state mega4809 I2C_TX_BYTE power_on = None
   \<and> \<not> unat (byte_count (i2c_fsm power_on)) < length (byte_array (i2c_fsm power_on))
   \<and> i2c_state_isr mega4809 power_on
       = Some (power_on\<lparr>trace := [Dispatch I2C_IDLE]\<rparr>)"
  using state_callbacks_total [of mega4809 I2C_STOP power_on]
    state_callbacks_total [of mega4809 I2C_TX_BYTE power_on]
  by (simp add: eval_defs)

subsection \<open>What one run of the handler changes\<close>

lemmas callback_defs =
  I2C_M_IDLE_def I2C_M_START_def I2C_M_STOP_def I2C_M_RESET_def I2C_M_TX_def I2C_M_RX_def
  I2C_M_RX_NACK_def I2C_M_ARB_LOST_def I2C_M_BUS_ERR_def set_state_def reg_write_def Let_def



lemma isr_byte:
  "i2c_state_isr K w = Some w' \<Longrightarrow> effective_state K w \<in> {I2C_TX_BYTE, I2C_RX_BYTE} \<Longrightarrow>
     byte_count (i2c_fsm w') = byte_count (i2c_fsm w) + 1
     \<and> state (i2c_fsm w') =
         (if size_byte_array (i2c_fsm w) \<le> byte_count (i2c_fsm w) + 1
          then I2C_STOP else effective_state K w)
     \<and> unat (byte_count (i2c_fsm w)) < length (byte_array (i2c_fsm w))"
  by (cases "effective_state K w")
    (auto simp add: isr_eq call_state_simps callback_defs split: if_splits)

lemma isr_begin:
  "i2c_state_isr K w = Some w' \<Longrightarrow> effective_state K w = I2C_START \<Longrightarrow>
     byte_count (i2c_fsm w') = 0 \<and> state (i2c_fsm w') \<in> {I2C_TX_BYTE, I2C_RX_BYTE}"
  by (auto simp add: isr_eq call_state_simps callback_defs split: if_splits)

lemma isr_rest:
  "i2c_state_isr K w = Some w' \<Longrightarrow>
   effective_state K w \<notin> {I2C_TX_BYTE, I2C_RX_BYTE, I2C_START} \<Longrightarrow>
     byte_count (i2c_fsm w') = byte_count (i2c_fsm w) \<and> state (i2c_fsm w') = I2C_IDLE
     \<and> byte_array (i2c_fsm w') = byte_array (i2c_fsm w)"
  by (cases "effective_state K w")
    (auto simp add: isr_eq call_state_simps callback_defs split: if_splits)

lemma isr_trace:
  "i2c_state_isr K w = Some w' \<Longrightarrow>
     \<exists>t. trace w' = trace w @ Dispatch (effective_state K w) # t \<and> (\<forall>s. Dispatch s \<notin> set t)"
  by (cases "effective_state K w")
    (auto simp add: isr_eq call_state_simps callback_defs split: if_splits)


subsection \<open>The invariant of the cursor\<close>

lemma effective_cases:
  "effective_state K w \<in> {I2C_NACK, I2C_ARB_ERR, I2C_BUS_ERR}
   \<or> effective_state K w = state (i2c_fsm w)"
  by (simp add: effective_state_eq)






subsection \<open>The cursor over a run of interrupts\<close>





subsection \<open>The bound of the cursor\<close>

lemma init_fsm: "i2c_fsm (i2c_master_init K w) = (i2c_fsm w)\<lparr>state := I2C_IDLE\<rparr>"
  by (simp add: i2c_master_init_def init_config_def reg_write_def set_state_def Let_def)






subsection \<open>Accesses inside the buffer\<close>



subsection \<open>The reset state\<close>

lemma isr_states:
  assumes isr: "i2c_state_isr K w = Some w'"
    and st: "state (i2c_fsm w) \<in> {I2C_IDLE, I2C_START, I2C_STOP, I2C_TX_BYTE, I2C_RX_BYTE}"
    and tr: "Dispatch I2C_RESET \<notin> set (trace w)"
  shows "state (i2c_fsm w') \<in> {I2C_IDLE, I2C_STOP, I2C_TX_BYTE, I2C_RX_BYTE}
         \<and> Dispatch I2C_RESET \<notin> set (trace w')"
proof -
  let ?e = "effective_state K w"
  have e: "?e \<noteq> I2C_RESET"
    using st effective_cases [of K w] by auto
  from isr_trace [OF isr] obtain t where
    "trace w' = trace w @ Dispatch ?e # t" "\<forall>s. Dispatch s \<notin> set t"
    by blast
  with e tr have tr': "Dispatch I2C_RESET \<notin> set (trace w')"
    by simp
  consider (byte) "?e \<in> {I2C_TX_BYTE, I2C_RX_BYTE}" | (start) "?e = I2C_START"
    | (rest) "?e \<notin> {I2C_TX_BYTE, I2C_RX_BYTE, I2C_START}"
    by blast
  then have "state (i2c_fsm w') \<in> {I2C_IDLE, I2C_STOP, I2C_TX_BYTE, I2C_RX_BYTE}"
  proof cases
    case byte
    from isr_byte [OF isr byte] byte show ?thesis by auto
  next
    case start
    from isr_begin [OF isr start] show ?thesis by auto
  next
    case rest
    from isr_rest [OF isr rest] show ?thesis by simp
  qed
  with tr' show ?thesis by simp
qed

lemma step_states:
  assumes step: "step K w c = Some w'"
    and st: "state (i2c_fsm w) \<in> {I2C_IDLE, I2C_STOP, I2C_TX_BYTE, I2C_RX_BYTE}"
    and tr: "Dispatch I2C_RESET \<notin> set (trace w)"
  shows "state (i2c_fsm w') \<in> {I2C_IDLE, I2C_STOP, I2C_TX_BYTE, I2C_RX_BYTE}
         \<and> Dispatch I2C_RESET \<notin> set (trace w')"
proof (cases c)
  case (SetBuffer buff sz)
  with step st tr show ?thesis
    by (auto simp add: i2c_set_buffer_def)
next
  case (Begin addr rw)
  show ?thesis
  proof (cases "state (i2c_fsm w) = I2C_IDLE")
    case True
    let ?w2 = "set_state I2C_START
      (w\<lparr>i2c_fsm := (i2c_fsm w)\<lparr>slave_addr := push_bit 1 addr OR rw\<rparr>\<rparr>)"
    have "i2c_state_isr K ?w2 = Some w'"
      using step Begin True by (simp add: i2c_start_def Let_def)
    moreover have "state (i2c_fsm ?w2) = I2C_START" "trace ?w2 = trace w"
      by (simp_all add: set_state_def)
    ultimately show ?thesis
      using tr isr_states [of K ?w2 w'] by simp
  next
    case False
    with step Begin st tr show ?thesis
      by (simp add: i2c_start_def)
  qed
next
  case (Event s d)
  have "i2c_state_isr K (hw_event s d w) = Some w'"
    using step Event by (simp add: TWI0_TWIM_vect_def)
  moreover have "i2c_fsm (hw_event s d w) = i2c_fsm w" "trace (hw_event s d w) = trace w"
    by (simp_all add: hw_event_def)
  ultimately show ?thesis
    using st tr isr_states [of K "hw_event s d w" w'] by auto
qed

lemma run_states:
  "run K w cs = Some w' \<Longrightarrow>
   state (i2c_fsm w) \<in> {I2C_IDLE, I2C_STOP, I2C_TX_BYTE, I2C_RX_BYTE} \<Longrightarrow>
   Dispatch I2C_RESET \<notin> set (trace w) \<Longrightarrow>
     state (i2c_fsm w') \<in> {I2C_IDLE, I2C_STOP, I2C_TX_BYTE, I2C_RX_BYTE}
     \<and> Dispatch I2C_RESET \<notin> set (trace w')"
proof (induction cs arbitrary: w)
  case Nil
  then show ?case by simp
next
  case (Cons c cs)
  from Cons.prems(1) obtain w1 where
    w1: "step K w c = Some w1" and r: "run K w1 cs = Some w'"
    by (auto split: option.splits)
  from step_states [OF w1 Cons.prems(2,3)] Cons.IH [OF r] show ?case
    by blast
qed

lemma init_trace:
  "\<exists>t. trace (i2c_master_init K w) = trace w @ t \<and> (\<forall>s. Dispatch s \<notin> set t)"
  by (simp add: i2c_master_init_def init_config_def reg_write_def set_state_def Let_def)

text \<open>
  C10. The reset callback or-s the flush bit into \<open>MCTRLB\<close>, or-s the bus-idle code into
  \<open>MSTATUS\<close> and returns idle. \<open>i2c_master_init\<close> ends with exactly these two writes and
  the storing of idle, inline, after its configuration. No callback returns the reset
  state, and the triage yields it only if it was the stored state. So from
  \<open>i2c_master_init\<close> on, whatever the calls and interrupts, the stored state is one of
  idle, stop and the two byte states, the state dispatched at the next interrupt is not
  the reset state, and the reset callback has never been dispatched.
\<close>

theorem reset_unused:
  "I2C_M_RESET K w =
     Some (I2C_IDLE,
           w\<lparr>TWI0 := (TWI0 w)
               \<lparr>MCTRLB := MCTRLB (TWI0 w) OR TWI_FLUSH_bm K,
                MSTATUS := MSTATUS (TWI0 w) OR TWI_BUSSTATE_IDLE_gc K\<rparr>,
             trace := trace w
               @ [Write R_MCTRLB (MCTRLB (TWI0 w) OR TWI_FLUSH_bm K),
                  Write R_MSTATUS (MSTATUS (TWI0 w) OR TWI_BUSSTATE_IDLE_gc K)]\<rparr>)
   \<and> map_option (\<lambda>(s, w'). set_state s w') (I2C_M_RESET K (init_config K w))
       = Some (i2c_master_init K w)
   \<and> (call_state K s w = Some (s', w1) \<longrightarrow> s' \<noteq> I2C_RESET)
   \<and> (effective_state K w = I2C_RESET \<longrightarrow> state (i2c_fsm w) = I2C_RESET)
   \<and> (Dispatch I2C_RESET \<notin> set (trace w) \<and> run K (i2c_master_init K w) cs = Some w' \<longrightarrow>
        state (i2c_fsm w') \<in> {I2C_IDLE, I2C_STOP, I2C_TX_BYTE, I2C_RX_BYTE}
        \<and> effective_state K (hw_event st d w') \<noteq> I2C_RESET
        \<and> Dispatch I2C_RESET \<notin> set (trace w'))"
proof -
  have action: "I2C_M_RESET K w =
     Some (I2C_IDLE,
           w\<lparr>TWI0 := (TWI0 w)
               \<lparr>MCTRLB := MCTRLB (TWI0 w) OR TWI_FLUSH_bm K,
                MSTATUS := MSTATUS (TWI0 w) OR TWI_BUSSTATE_IDLE_gc K\<rparr>,
             trace := trace w
               @ [Write R_MCTRLB (MCTRLB (TWI0 w) OR TWI_FLUSH_bm K),
                  Write R_MSTATUS (MSTATUS (TWI0 w) OR TWI_BUSSTATE_IDLE_gc K)]\<rparr>)"
    by (simp add: I2C_M_RESET_def reg_write_def Let_def)
  have init: "map_option (\<lambda>(s, w'). set_state s w') (I2C_M_RESET K (init_config K w))
       = Some (i2c_master_init K w)"
    by (simp add: I2C_M_RESET_def i2c_master_init_def Let_def)
  have ret: "s' \<noteq> I2C_RESET" if "call_state K s w = Some (s', w1)"
    using that by (cases s) (auto simp add: call_state_simps callback_defs split: if_splits)
  have tri: "state (i2c_fsm w) = I2C_RESET" if "effective_state K w = I2C_RESET"
    using that effective_cases [of K w] by auto
  have reach: "state (i2c_fsm w') \<in> {I2C_IDLE, I2C_STOP, I2C_TX_BYTE, I2C_RX_BYTE}
        \<and> effective_state K (hw_event st d w') \<noteq> I2C_RESET
        \<and> Dispatch I2C_RESET \<notin> set (trace w')"
    if tr: "Dispatch I2C_RESET \<notin> set (trace w)"
      and r: "run K (i2c_master_init K w) cs = Some w'"
  proof -
    have "Dispatch I2C_RESET \<notin> set (trace (i2c_master_init K w))"
      using tr init_trace [of K w] by auto
    moreover have "state (i2c_fsm (i2c_master_init K w)) = I2C_IDLE"
      by (simp add: init_fsm)
    ultimately have *: "state (i2c_fsm w') \<in> {I2C_IDLE, I2C_STOP, I2C_TX_BYTE, I2C_RX_BYTE}
        \<and> Dispatch I2C_RESET \<notin> set (trace w')"
      using run_states [OF r] by simp
    then have "effective_state K (hw_event st d w') \<noteq> I2C_RESET"
      using effective_cases [of K "hw_event st d w'"] by (auto simp add: hw_event_def)
    with * show ?thesis by simp
  qed
  show ?thesis
    using action init ret tri reach by blast
qed

text \<open>A transaction aborted by a bus error; and the reset callback, which only a stored
  reset state reaches.\<close>

theorem reset_unused_witness:
  "Dispatch I2C_RESET \<notin> set (trace power_on)
   \<and> map_option i2c_fsm
       (run mega4809 (i2c_master_init mega4809 power_on)
          [SetBuffer [1, 2, 3] 3, Begin 0x50 0, Event 0x04 0])
       = Some \<lparr>slave_addr = 0xA0, byte_array = [1, 2, 3], size_byte_array = 3,
               byte_count = 0, state = I2C_IDLE\<rparr>
   \<and> map_option trace
       (run mega4809 (i2c_master_init mega4809 power_on)
          [SetBuffer [1, 2, 3] 3, Begin 0x50 0, Event 0x04 0])
       = Some [Write R_CTRLA 0, Write R_DBGCTRL 1, Write R_MBAUD 0x0B, Write R_MCTRLA 0xC1,
               Write R_MCTRLB 0, Write R_MCTRLB 0x08, Write R_MSTATUS 0x01,
               Dispatch I2C_START, Write R_MADDR 0xA0, Dispatch I2C_BUS_ERR,
               Write R_MCTRLB 0x0B]
   \<and> call_state mega4809 I2C_RESET power_on
       = Some (I2C_IDLE,
               power_on\<lparr>TWI0 := (TWI0 power_on)\<lparr>MCTRLB := 0x08, MSTATUS := 0x01\<rparr>,
                 trace := [Dispatch I2C_RESET, Write R_MCTRLB 0x08, Write R_MSTATUS 0x01]\<rparr>)
   \<and> state (i2c_fsm (set_state I2C_RESET power_on)) = I2C_RESET
   \<and> effective_state mega4809 (set_state I2C_RESET power_on) = I2C_RESET"
  using reset_unused [of mega4809 power_on I2C_RESET I2C_IDLE
      "power_on\<lparr>TWI0 := (TWI0 power_on)\<lparr>MCTRLB := 0x08, MSTATUS := 0x01\<rparr>,
                 trace := [Dispatch I2C_RESET, Write R_MCTRLB 0x08, Write R_MSTATUS 0x01]\<rparr>"
      "[SetBuffer [1, 2, 3] 3, Begin 0x50 0, Event 0x04 0]" _ 0 0]
    reset_unused [of mega4809 "set_state I2C_RESET power_on"]
  by (simp add: run_defs effective_state_eq)

subsection \<open>Writing three bytes\<close>

text \<open>The definitions that run the driver on a machine that is not concrete.\<close>

lemmas sym_defs =
  TWI0_TWIM_vect_def i2c_state_isr_def triage_def call_state_def state_callbacks_def
  I2C_M_IDLE_def I2C_M_START_def I2C_M_STOP_def I2C_M_TX_def
  i2c_start_def i2c_set_buffer_def
  hw_event_def set_state_def reg_write_def Let_def no_flag_def word_le_nat_alt

text \<open>
  C6. A transaction of length 3 in the write direction (the read bit of the recorded
  address is clear), begun on an idle machine, with no error flag at \<open>i2c_start\<close> nor at
  any of the five interrupts that follow: the states dispatched are start, transmit,
  transmit, transmit, stop, idle, in this order; the address register is written once,
  the data register three times, with \<open>byte_array[0]\<close>, \<open>byte_array[1]\<close>, \<open>byte_array[2]\<close>,
  and then the stop command is issued. The direction is read by the start callback only:
  the transmit callback does the same whatever the recorded address.
\<close>

theorem write_three_bytes:
  "(state (i2c_fsm w) = I2C_IDLE \<and> no_flag K (MSTATUS (TWI0 w)) \<and> 3 \<le> length buff
      \<and> (push_bit 1 addr OR rw) AND I2C_READ_bm K = 0
      \<and> no_flag K s1 \<and> no_flag K s2 \<and> no_flag K s3 \<and> no_flag K s4 \<and> no_flag K s5 \<longrightarrow>
      run K w [SetBuffer buff 3, Begin addr rw, Event s1 d1, Event s2 d2, Event s3 d3,
               Event s4 d4, Event s5 d5] =
        Some (w\<lparr>i2c_fsm :=
                   \<lparr>slave_addr = push_bit 1 addr OR rw, byte_array = buff,
                    size_byte_array = 3, byte_count = 3, state = I2C_IDLE\<rparr>,
                 TWI0 := (TWI0 w)
                   \<lparr>MCTRLB := MCTRLB (TWI0 w) OR TWI_MCMD_STOP_gc K, MSTATUS := s5,
                    MADDR := push_bit 1 addr OR rw, MDATA := d5\<rparr>,
                 trace := trace w @
                   [Dispatch I2C_START, Write R_MADDR (push_bit 1 addr OR rw),
                    Dispatch I2C_TX_BYTE, Write R_MDATA (buff ! 0),
                    Dispatch I2C_TX_BYTE, Write R_MDATA (buff ! 1),
                    Dispatch I2C_TX_BYTE, Write R_MDATA (buff ! 2),
                    Dispatch I2C_STOP, Write R_MCTRLB (MCTRLB (TWI0 w) OR TWI_MCMD_STOP_gc K),
                    Dispatch I2C_IDLE]\<rparr>))
   \<and> I2C_M_TX (w\<lparr>i2c_fsm := (i2c_fsm w)\<lparr>slave_addr := x\<rparr>\<rparr>) =
       map_option (\<lambda>(s, w'). (s, w'\<lparr>i2c_fsm := (i2c_fsm w')\<lparr>slave_addr := x\<rparr>\<rparr>))
         (I2C_M_TX w)"
proof -
  have tx: "I2C_M_TX (w\<lparr>i2c_fsm := (i2c_fsm w)\<lparr>slave_addr := x\<rparr>\<rparr>) =
       map_option (\<lambda>(s, w'). (s, w'\<lparr>i2c_fsm := (i2c_fsm w')\<lparr>slave_addr := x\<rparr>\<rparr>))
         (I2C_M_TX w)"
    by (simp add: I2C_M_TX_def reg_write_def Let_def)
  have scen: "run K w [SetBuffer buff 3, Begin addr rw, Event s1 d1, Event s2 d2, Event s3 d3,
               Event s4 d4, Event s5 d5] =
        Some (w\<lparr>i2c_fsm :=
                   \<lparr>slave_addr = push_bit 1 addr OR rw, byte_array = buff,
                    size_byte_array = 3, byte_count = 3, state = I2C_IDLE\<rparr>,
                 TWI0 := (TWI0 w)
                   \<lparr>MCTRLB := MCTRLB (TWI0 w) OR TWI_MCMD_STOP_gc K, MSTATUS := s5,
                    MADDR := push_bit 1 addr OR rw, MDATA := d5\<rparr>,
                 trace := trace w @
                   [Dispatch I2C_START, Write R_MADDR (push_bit 1 addr OR rw),
                    Dispatch I2C_TX_BYTE, Write R_MDATA (buff ! 0),
                    Dispatch I2C_TX_BYTE, Write R_MDATA (buff ! 1),
                    Dispatch I2C_TX_BYTE, Write R_MDATA (buff ! 2),
                    Dispatch I2C_STOP, Write R_MCTRLB (MCTRLB (TWI0 w) OR TWI_MCMD_STOP_gc K),
                    Dispatch I2C_IDLE]\<rparr>)"
    if "state (i2c_fsm w) = I2C_IDLE" "no_flag K (MSTATUS (TWI0 w))" "3 \<le> length buff"
      "(push_bit 1 addr OR rw) AND I2C_READ_bm K = 0"
      "no_flag K s1" "no_flag K s2" "no_flag K s3" "no_flag K s4" "no_flag K s5"
  proof -
    have "buff \<noteq> []" "Suc 0 < length buff" "2 < length buff"
      using that(3) by auto
    with that show ?thesis
      by (simp add: sym_defs)
  qed
  show ?thesis
    using tx scen by blast
qed


text \<open>The bytes 0x11, 0x22, 0x33 to address 0x50, the bus idle at each interrupt.\<close>

theorem write_three_bytes_witness:
  "state (i2c_fsm power_on) = I2C_IDLE
   \<and> no_flag mega4809 (MSTATUS (TWI0 power_on))
   \<and> 3 \<le> length [0x11, 0x22, 0x33 :: u8]
   \<and> (push_bit 1 (0x50 :: u8) OR 0) AND I2C_READ_bm mega4809 = 0
   \<and> no_flag mega4809 0x01
   \<and> run mega4809 power_on
         [SetBuffer [0x11, 0x22, 0x33] 3, Begin 0x50 0, Event 0x01 0, Event 0x01 0,
          Event 0x01 0, Event 0x01 0, Event 0x01 0] =
       Some \<lparr>i2c_fsm = \<lparr>slave_addr = 0xA0, byte_array = [0x11, 0x22, 0x33],
                         size_byte_array = 3, byte_count = 3, state = I2C_IDLE\<rparr>,
             TWI0 = \<lparr>CTRLA = 0, DBGCTRL = 0, MBAUD = 0, MCTRLA = 0, MCTRLB = 0x03,
                      MSTATUS = 0x01, MADDR = 0xA0, MDATA = 0\<rparr>,
             trace = [Dispatch I2C_START, Write R_MADDR 0xA0,
                      Dispatch I2C_TX_BYTE, Write R_MDATA 0x11,
                      Dispatch I2C_TX_BYTE, Write R_MDATA 0x22,
                      Dispatch I2C_TX_BYTE, Write R_MDATA 0x33,
                      Dispatch I2C_STOP, Write R_MCTRLB 0x03,
                      Dispatch I2C_IDLE]\<rparr>"
  using write_three_bytes [of power_on mega4809 "[0x11, 0x22, 0x33]" "0x50" 0
      "0x01" "0x01" "0x01" "0x01" "0x01" 0 0 0 0 0]
  by (simp add: power_on_def i2c_fsm_zero_def mega4809_def no_flag_def)

subsection \<open>Starting again after an abort\<close>

text \<open>
  Nothing of \<open>i2c_fsm\<close> survives into the next transaction: two idle machines with the
  same registers, given the same buffer and started at the same address, end with the
  same \<open>i2c_fsm\<close> and registers, having done the same things.
\<close>

lemma reentry_same_registers:
  assumes idle: "state (i2c_fsm w1) = I2C_IDLE" "state (i2c_fsm w2) = I2C_IDLE"
    and regs: "TWI0 w1 = TWI0 w2"
  shows "\<exists>f r t. run K w1 [SetBuffer buff sz, Begin addr rw]
             = Some \<lparr>i2c_fsm = f, TWI0 = r, trace = trace w1 @ t\<rparr>
           \<and> run K w2 [SetBuffer buff sz, Begin addr rw]
             = Some \<lparr>i2c_fsm = f, TWI0 = r, trace = trace w2 @ t\<rparr>"
proof -
  let ?v = "\<lambda>w. (i2c_set_buffer buff sz w)
      \<lparr>i2c_fsm := (i2c_fsm (i2c_set_buffer buff sz w))
         \<lparr>slave_addr := push_bit 1 addr OR rw, state := I2C_START\<rparr>\<rparr>"
  have start: "run K w [SetBuffer buff sz, Begin addr rw] = i2c_state_isr K (?v w)"
    if "state (i2c_fsm w) = I2C_IDLE" for w
    using that
    by (simp add: i2c_start_def i2c_set_buffer_def set_state_def Let_def split: option.splits)
  have eff: "effective_state K (?v w1) = effective_state K (?v w2)"
    using regs by (simp add: effective_state_eq i2c_set_buffer_def)
  have cases: "effective_state K (?v w1) = I2C_START
      \<or> effective_state K (?v w1) \<in> {I2C_STOP, I2C_NACK, I2C_ARB_ERR, I2C_BUS_ERR}"
    using effective_cases [of K "?v w1"] by (auto simp add: i2c_set_buffer_def)
  then show ?thesis
  proof
    assume e: "effective_state K (?v w1) = I2C_START"
    then have e2: "effective_state K (?v w2) = I2C_START"
      using eff by simp
    show ?thesis
      using idle regs
      by (simp only: start isr_start [OF e] isr_start [OF e2])
        (cases w1, cases w2, simp add: i2c_set_buffer_def)
  next
    assume e: "effective_state K (?v w1) \<in> {I2C_STOP, I2C_NACK, I2C_ARB_ERR, I2C_BUS_ERR}"
    then have e2: "effective_state K (?v w2) \<in> {I2C_STOP, I2C_NACK, I2C_ARB_ERR, I2C_BUS_ERR}"
      using eff by simp
    show ?thesis
      using idle regs eff
      by (simp only: start isr_stop [OF e] isr_stop [OF e2])
        (cases w1, cases w2,
         simp add: i2c_set_buffer_def stopped_def set_state_def reg_write_def)
  qed
qed

text \<open>
  C8 does not hold of the driver: what the status register holds does survive.
  \<open>i2c_start\<close> runs the whole handler, triage included, before anything has been sent.
  After a transaction aborted by a bus error the three error callbacks have only issued
  a stop, so the flag, which by the comments of the source stays up until \<open>MADDR\<close> is
  written, is still there at the next \<open>i2c_start\<close>: the triage dispatches the bus-error
  callback again, \<open>MADDR\<close> is never written, and the machine is idle without a byte sent.
  On a freshly initialised machine the same two calls dispatch the start callback, write
  the address and leave the machine in the transmit state.
\<close>

theorem reentry_stale_flag:
  "map_option i2c_fsm
     (run mega4809 (i2c_master_init mega4809 power_on)
        [SetBuffer [4, 5, 6] 3, Begin 0x51 0])
     = Some \<lparr>slave_addr = 0xA2, byte_array = [4, 5, 6], size_byte_array = 3, byte_count = 0,
             state = I2C_TX_BYTE\<rparr>
   \<and> map_option trace
       (run mega4809 (i2c_master_init mega4809 power_on)
          [SetBuffer [4, 5, 6] 3, Begin 0x51 0])
     = Some [Write R_CTRLA 0, Write R_DBGCTRL 1, Write R_MBAUD 0x0B, Write R_MCTRLA 0xC1,
             Write R_MCTRLB 0, Write R_MCTRLB 0x08, Write R_MSTATUS 0x01,
             Dispatch I2C_START, Write R_MADDR 0xA2]
   \<and> map_option i2c_fsm
       (run mega4809 (i2c_master_init mega4809 power_on)
          [SetBuffer [1, 2, 3] 3, Begin 0x50 0, Event 0x04 0,
           SetBuffer [4, 5, 6] 3, Begin 0x51 0])
     = Some \<lparr>slave_addr = 0xA2, byte_array = [4, 5, 6], size_byte_array = 3, byte_count = 0,
             state = I2C_IDLE\<rparr>
   \<and> map_option trace
       (run mega4809 (i2c_master_init mega4809 power_on)
          [SetBuffer [1, 2, 3] 3, Begin 0x50 0, Event 0x04 0,
           SetBuffer [4, 5, 6] 3, Begin 0x51 0])
     = Some [Write R_CTRLA 0, Write R_DBGCTRL 1, Write R_MBAUD 0x0B, Write R_MCTRLA 0xC1,
             Write R_MCTRLB 0, Write R_MCTRLB 0x08, Write R_MSTATUS 0x01,
             Dispatch I2C_START, Write R_MADDR 0xA0,
             Dispatch I2C_BUS_ERR, Write R_MCTRLB 0x0B,
             Dispatch I2C_BUS_ERR, Write R_MCTRLB 0x0B]"
  by (simp add: run_defs)

end
